theory Spec2Isabelle
  imports Main "HOL-Library.Sublist"
begin

section \<open>Python values\<close>

text \<open>
  A Python \<open>str\<close> is a sequence of Unicode code points, so it is modelled as a list of
  natural numbers. \<open>ascii\<close> turns an Isabelle literal into such a string; every literal
  of \<^verbatim>\<open>main.py\<close> is ASCII.
\<close>

type_synonym str = "nat list"

definition ascii :: "string \<Rightarrow> str" where
  "ascii s = map of_char s"

text \<open>
  \<open>str.lower()\<close>. On the ASCII range it is fixed: \<open>A..Z\<close> (65..90) move to \<open>a..z\<close>,
  every other ASCII code point stays. Beyond ASCII the result comes from the Unicode
  tables of the interpreter, which may yield several code points and may look at the
  context (final sigma); that part is the parameter \<open>tbl\<close>, called with the code points
  before, the code point itself and the code points after it.
\<close>

type_synonym lower_table = "str \<Rightarrow> nat \<Rightarrow> str \<Rightarrow> str"

definition lower_cp :: "lower_table \<Rightarrow> str \<Rightarrow> nat \<Rightarrow> str \<Rightarrow> str" where
  "lower_cp tbl pre c post =
     (if 65 \<le> c \<and> c \<le> 90 then [c + 32]
      else if c < 128 then [c]
      else tbl pre c post)"

fun lower_from :: "lower_table \<Rightarrow> str \<Rightarrow> str \<Rightarrow> str" where
  "lower_from tbl pre [] = []"
| "lower_from tbl pre (c # post) =
     lower_cp tbl pre c post @ lower_from tbl (pre @ [c]) post"

definition lower :: "lower_table \<Rightarrow> str \<Rightarrow> str" where
  "lower tbl s = lower_from tbl [] s"

text \<open>
  No entry of the Unicode tables lowers a code point to the capital letter \<open>K\<close> (75):
  the assumption on the interpreter under which the search tool is analysed.
\<close>

definition lower_table_ok :: "lower_table \<Rightarrow> bool" where
  "lower_table_ok tbl = (\<forall>pre c post. 128 \<le> c \<longrightarrow> 75 \<notin> set (tbl pre c post))"

text \<open>A table that leaves every code point beyond ASCII as it is, for concrete runs.\<close>

definition keep_table :: lower_table where
  "keep_table pre c post = [c]"

text \<open>
  The objects that reach the program as JSON or as tool-call arguments: \<open>None\<close>, booleans,
  integers, floats, strings, lists and dictionaries with string keys. A float carries
  the text that \<open>json.dumps\<close> writes for it (its \<open>repr\<close>); a dictionary keeps its
  insertion order.
\<close>

datatype pyobj =
    PyNone
  | PyBool bool
  | PyInt int
  | PyFloat str
  | PyStr str
  | PyList "pyobj list"
  | PyDict "(str \<times> pyobj) list"

text \<open>
  The exceptions that occur in a run, every one a subclass of \<open>Exception\<close>.
  \<open>ProviderError\<close> stands for what the client library raises when the call to the hosted
  model fails, with its message.
\<close>

datatype exn =
    IndexError
  | KeyError str
  | AttributeError
  | TypeError
  | ValueError
  | ValidationError
  | UnicodeEncodeError
  | RuntimeError str
  | ProviderError str

section \<open>json.dumps\<close>

fun nat_digits :: "nat \<Rightarrow> str" where
  "nat_digits n = (if n < 10 then [48 + n] else nat_digits (n div 10) @ [48 + n mod 10])"

declare nat_digits.simps [simp del]

definition int_repr :: "int \<Rightarrow> str" where
  "int_repr i = (if i < 0 then 45 # nat_digits (nat (- i)) else nat_digits (nat i))"

definition hex_digit :: "nat \<Rightarrow> nat" where
  "hex_digit d = (if d < 10 then 48 + d else 87 + d)"

definition hex4 :: "nat \<Rightarrow> str" where
  "hex4 n = [hex_digit (n div 4096 mod 16), hex_digit (n div 256 mod 16),
             hex_digit (n div 16 mod 16), hex_digit (n mod 16)]"

text \<open>
  The escaping of \<open>json.dumps\<close> with its default \<open>ensure_ascii=True\<close>: the quote (34) and
  the backslash (92) get a backslash, the five control characters their short form,
  printable ASCII stays, and everything else becomes \<^verbatim>\<open>\uXXXX\<close>, as a surrogate
  pair beyond the basic plane.
\<close>

definition escape_cp :: "nat \<Rightarrow> str" where
  "escape_cp c =
     (if c = 34 then [92, 34]
      else if c = 92 then [92, 92]
      else if c = 8 then [92, 98]
      else if c = 12 then [92, 102]
      else if c = 10 then [92, 110]
      else if c = 13 then [92, 114]
      else if c = 9 then [92, 116]
      else if 32 \<le> c \<and> c \<le> 126 then [c]
      else if c < 65536 then [92, 117] @ hex4 c
      else [92, 117] @ hex4 (55296 + (c - 65536) div 1024 mod 1024) @
           [92, 117] @ hex4 (56320 + (c - 65536) mod 1024))"

definition encode_str :: "str \<Rightarrow> str" where
  "encode_str s = [34] @ concat (map escape_cp s) @ [34]"

text \<open>\<open>sep.join(xs)\<close>.\<close>

fun join :: "str \<Rightarrow> str list \<Rightarrow> str" where
  "join sep [] = []"
| "join sep [x] = x"
| "join sep (x # y # ys) = x @ sep @ join sep (y # ys)"

fun json_dumps :: "pyobj \<Rightarrow> str" where
  "json_dumps PyNone = ascii ''null''"
| "json_dumps (PyBool b) = (if b then ascii ''true'' else ascii ''false'')"
| "json_dumps (PyInt i) = int_repr i"
| "json_dumps (PyFloat r) = r"
| "json_dumps (PyStr s) = encode_str s"
| "json_dumps (PyList xs) = ascii ''['' @ join (ascii '', '') (map json_dumps xs) @ ascii '']''"
| "json_dumps (PyDict kvs) =
     ascii ''{'' @
     join (ascii '', '') (map (\<lambda>(k, v). encode_str k @ ascii '': '' @ json_dumps v) kvs) @
     ascii ''}''"

section \<open>The search tool\<close>

text \<open>
  The two calls of \<open>chat.send_message\<close> in the program. Line 97 passes the prompt text
  as the positional argument. Line 106 passes one keyword argument, \<open>part\<close>, a \<open>Part\<close>
  holding a \<open>FunctionResponse\<close> with a name and a response dictionary. A value of this
  type is the call as the program makes it; what the library does with it is not
  decided here.
\<close>

datatype send_call =
    Content str
  | PartKeyword str "(str \<times> str) list"

text \<open>
  The two lines the program prints: the banner of the search tool (line 43), which
  holds the query as \<open>format\<close> renders it, and the error line of the handler (line 121),
  which holds the exception.
\<close>

datatype line =
    SearchBanner pyobj
  | ErrorLine exn

text \<open>
  \<open>print\<close> writes to the standard output of the process and can raise, for one, a
  \<open>UnicodeEncodeError\<close> when the text cannot be encoded for that output. Its outcome
  is the parameter \<open>stdout\<close>: \<open>None\<close> when the line was written, the exception otherwise.
\<close>

type_synonym printer = "line \<Rightarrow> exn option"

text \<open>
  What the program does besides returning values: it prints lines, it calls the search
  tool, and it calls \<open>chat.send_message\<close>. A run is described by the list of these
  events, in order; a line that could not be written is no event.
\<close>

datatype event =
    Printed line
  | CallSearchTool pyobj
  | CallSendMessage send_call

definition kyoto_results :: pyobj where
  "kyoto_results =
     PyDict [(ascii ''results'', PyList [
       PyDict [(ascii ''name'', PyStr (ascii ''Kikunoi Roan'')),
               (ascii ''rating'', PyFloat (ascii ''4.5'')),
               (ascii ''type'', PyStr (ascii ''Kaiseki''))],
       PyDict [(ascii ''name'', PyStr (ascii ''Gogyo Ramen'')),
               (ascii ''rating'', PyFloat (ascii ''4.3'')),
               (ascii ''type'', PyStr (ascii ''Ramen''))]])]"

definition no_information :: pyobj where
  "no_information =
     PyDict [(ascii ''results'',
              PyStr (ascii ''No real-time information found for this query.''))]"

text \<open>
  \<open>perform_web_search\<close> (lines 37 to 51). The banner is printed first, whatever the
  argument is; when that \<open>print\<close> raises, the exception leaves the function and nothing
  else is done. \<open>query.lower()\<close> exists on a \<open>str\<close> only, so any other object raises
  \<open>AttributeError\<close> there. The result is the printed events and the value or exception.
\<close>

definition perform_web_search ::
  "printer \<Rightarrow> lower_table \<Rightarrow> pyobj \<Rightarrow> event list \<times> (exn + str)" where
  "perform_web_search stdout tbl query =
     (case stdout (SearchBanner query) of
        Some e \<Rightarrow> ([], Inl e)
      | None \<Rightarrow>
          ([Printed (SearchBanner query)],
           case query of
             PyStr q \<Rightarrow>
               if sublist (ascii ''restaurants in Kyoto'') (lower tbl q)
               then Inr (json_dumps kyoto_results)
               else Inr (json_dumps no_information)
           | _ \<Rightarrow> Inl AttributeError))"

text \<open>
  The reading of "contains the substring under case-insensitive comparison" that the
  description of the tool gives: both sides are lowered before the substring test.
\<close>

definition contains_ignoring_case :: "lower_table \<Rightarrow> str \<Rightarrow> str \<Rightarrow> bool" where
  "contains_ignoring_case tbl needle s = sublist (lower tbl needle) (lower tbl s)"

section \<open>The request and the prompt\<close>

record ItineraryRequest =
  prompt :: str
  history :: "(str \<times> pyobj) list list"
  currentItinerary :: "(str \<times> pyobj) list option"

text \<open>
  The truth value Python gives an \<open>Optional[Dict]\<close>: \<open>None\<close> and the empty dictionary
  are false, every other dictionary is true.
\<close>

definition is_truthy :: "(str \<times> pyobj) list option \<Rightarrow> bool" where
  "is_truthy d = (case d of None \<Rightarrow> False | Some kvs \<Rightarrow> kvs \<noteq> [])"

definition optional_dict :: "(str \<times> pyobj) list option \<Rightarrow> pyobj" where
  "optional_dict d = (case d of None \<Rightarrow> PyNone | Some kvs \<Rightarrow> PyDict kvs)"

text \<open>
  The three fixed pieces of the f-string of lines 81 to 93, around the two places
  where a value is put in. A line break is the code point 10, the double quote 34.
\<close>

definition prompt_head :: str where
  "prompt_head =
     [10] @
     ascii ''    You are an expert travel agent. Your task is to generate a detailed, day-by-day travel itinerary.'' @ [10] @
     ascii ''    The user's request is: '' @ [34]"

definition prompt_middle :: str where
  "prompt_middle =
     [34, 10] @
     [10] @
     ascii ''    If a previous itinerary is provided, modify it based on the user's request.'' @ [10] @
     ascii ''    Previous itinerary: ''"

definition prompt_tail :: str where
  "prompt_tail =
     [10] @
     [10] @
     ascii ''    You have access to a web search tool to find real-time information like popular restaurants or opening hours. Use it if necessary.'' @ [10] @
     [10] @
     ascii ''    You **must** respond with only a valid JSON object that conforms to the required schema.'' @ [10] @
     ascii ''    Do not include any other text, explanations, or markdown formatting like ```json.'' @ [10] @
     ascii ''    Your response must be the raw JSON object.'' @ [10] @
     ascii ''    ''"

definition compose_prompt :: "ItineraryRequest \<Rightarrow> str" where
  "compose_prompt request =
     prompt_head @ prompt request @ prompt_middle @
     (if is_truthy (currentItinerary request)
      then json_dumps (optional_dict (currentItinerary request))
      else ascii ''None'') @
     prompt_tail"

section \<open>The itinerary schema\<close>

record ItineraryItem =
  time :: str
  activity :: str
  location :: str

record Day =
  date :: str
  summary :: str
  items :: "ItineraryItem list"

record Itinerary =
  title :: str
  startDate :: str
  endDate :: str
  days :: "Day list"

text \<open>
  Validation of parsed JSON against the three models, as Pydantic does it for JSON
  input: a model takes a JSON object, a \<open>str\<close> field a JSON string and nothing else, a
  \<open>List\<close> field a JSON array; a required field must be there; keys that are not fields
  are ignored. Every failure is the one \<open>ValidationError\<close>.
\<close>

definition required_field :: "(str \<times> pyobj) list \<Rightarrow> string \<Rightarrow> exn + pyobj" where
  "required_field kvs k =
     (case map_of kvs (ascii k) of None \<Rightarrow> Inl ValidationError | Some v \<Rightarrow> Inr v)"

definition validate_str :: "pyobj \<Rightarrow> exn + str" where
  "validate_str v = (case v of PyStr s \<Rightarrow> Inr s | _ \<Rightarrow> Inl ValidationError)"

definition str_field :: "(str \<times> pyobj) list \<Rightarrow> string \<Rightarrow> exn + str" where
  "str_field kvs k =
     (case required_field kvs k of Inl e \<Rightarrow> Inl e | Inr v \<Rightarrow> validate_str v)"

fun validate_each :: "(pyobj \<Rightarrow> exn + 'a) \<Rightarrow> pyobj list \<Rightarrow> exn + 'a list" where
  "validate_each f [] = Inr []"
| "validate_each f (x # xs) =
     (case f x of
        Inl e \<Rightarrow> Inl e
      | Inr y \<Rightarrow> (case validate_each f xs of Inl e \<Rightarrow> Inl e | Inr ys \<Rightarrow> Inr (y # ys)))"

definition list_field ::
  "(pyobj \<Rightarrow> exn + 'a) \<Rightarrow> (str \<times> pyobj) list \<Rightarrow> string \<Rightarrow> exn + 'a list" where
  "list_field f kvs k =
     (case required_field kvs k of
        Inl e \<Rightarrow> Inl e
      | Inr (PyList xs) \<Rightarrow> validate_each f xs
      | Inr _ \<Rightarrow> Inl ValidationError)"

definition validate_ItineraryItem :: "pyobj \<Rightarrow> exn + ItineraryItem" where
  "validate_ItineraryItem v =
     (case v of
        PyDict kvs \<Rightarrow>
          (case (str_field kvs ''time'', str_field kvs ''activity'', str_field kvs ''location'') of
             (Inr t, Inr a, Inr l) \<Rightarrow> Inr \<lparr>time = t, activity = a, location = l\<rparr>
           | _ \<Rightarrow> Inl ValidationError)
      | _ \<Rightarrow> Inl ValidationError)"

definition validate_Day :: "pyobj \<Rightarrow> exn + Day" where
  "validate_Day v =
     (case v of
        PyDict kvs \<Rightarrow>
          (case (str_field kvs ''date'', str_field kvs ''summary'',
                 list_field validate_ItineraryItem kvs ''items'') of
             (Inr d, Inr s, Inr xs) \<Rightarrow> Inr \<lparr>date = d, summary = s, items = xs\<rparr>
           | _ \<Rightarrow> Inl ValidationError)
      | _ \<Rightarrow> Inl ValidationError)"

definition validate_Itinerary :: "pyobj \<Rightarrow> exn + Itinerary" where
  "validate_Itinerary v =
     (case v of
        PyDict kvs \<Rightarrow>
          (case (str_field kvs ''title'', str_field kvs ''startDate'', str_field kvs ''endDate'',
                 list_field validate_Day kvs ''days'') of
             (Inr t, Inr s, Inr e, Inr ds) \<Rightarrow>
               Inr \<lparr>title = t, startDate = s, endDate = e, days = ds\<rparr>
           | _ \<Rightarrow> Inl ValidationError)
      | _ \<Rightarrow> Inl ValidationError)"

text \<open>
  \<open>Itinerary.model_validate_json\<close>. The JSON parser of the library is the parameter
  \<open>loads\<close>: it gives the parsed value, a dictionary having each key once, or \<open>None\<close>
  for text that is not JSON, which the library reports as a \<open>ValidationError\<close> too.
\<close>

type_synonym json_parser = "str \<Rightarrow> pyobj option"

definition model_validate_json :: "json_parser \<Rightarrow> str \<Rightarrow> exn + Itinerary" where
  "model_validate_json loads s =
     (case loads s of None \<Rightarrow> Inl ValidationError | Some v \<Rightarrow> validate_Itinerary v)"

text \<open>The serialisation of the models for the response body, fields in declared order.\<close>

definition dump_ItineraryItem :: "ItineraryItem \<Rightarrow> pyobj" where
  "dump_ItineraryItem i =
     PyDict [(ascii ''time'', PyStr (time i)), (ascii ''activity'', PyStr (activity i)),
             (ascii ''location'', PyStr (location i))]"

definition dump_Day :: "Day \<Rightarrow> pyobj" where
  "dump_Day d =
     PyDict [(ascii ''date'', PyStr (date d)), (ascii ''summary'', PyStr (summary d)),
             (ascii ''items'', PyList (map dump_ItineraryItem (items d)))]"

definition dump_Itinerary :: "Itinerary \<Rightarrow> pyobj" where
  "dump_Itinerary i =
     PyDict [(ascii ''title'', PyStr (title i)), (ascii ''startDate'', PyStr (startDate i)),
             (ascii ''endDate'', PyStr (endDate i)),
             (ascii ''days'', PyList (map dump_Day (days i)))]"

text \<open>
  "Well-formed Itinerary JSON" in the words of the description: title, startDate and
  endDate are text and days is a list of Day records, a Day record having text date and
  summary and a list of items, an item having text time, activity and location.
\<close>

definition is_text :: "(str \<times> pyobj) list \<Rightarrow> string \<Rightarrow> bool" where
  "is_text kvs k = (case map_of kvs (ascii k) of Some (PyStr s) \<Rightarrow> True | _ \<Rightarrow> False)"

definition is_list_of :: "(pyobj \<Rightarrow> bool) \<Rightarrow> (str \<times> pyobj) list \<Rightarrow> string \<Rightarrow> bool" where
  "is_list_of P kvs k =
     (case map_of kvs (ascii k) of Some (PyList xs) \<Rightarrow> list_all P xs | _ \<Rightarrow> False)"

definition is_item_json :: "pyobj \<Rightarrow> bool" where
  "is_item_json v =
     (case v of
        PyDict kvs \<Rightarrow> is_text kvs ''time'' \<and> is_text kvs ''activity'' \<and> is_text kvs ''location''
      | _ \<Rightarrow> False)"

definition is_day_json :: "pyobj \<Rightarrow> bool" where
  "is_day_json v =
     (case v of
        PyDict kvs \<Rightarrow>
          is_text kvs ''date'' \<and> is_text kvs ''summary'' \<and> is_list_of is_item_json kvs ''items''
      | _ \<Rightarrow> False)"

definition is_itinerary_json :: "pyobj \<Rightarrow> bool" where
  "is_itinerary_json v =
     (case v of
        PyDict kvs \<Rightarrow>
          is_text kvs ''title'' \<and> is_text kvs ''startDate'' \<and> is_text kvs ''endDate'' \<and>
          is_list_of is_day_json kvs ''days''
      | _ \<Rightarrow> False)"

section \<open>The exchange with the model\<close>

text \<open>
  What the handler reads of a reply: the function call of the first part of the first
  candidate, and the \<open>text\<close> accessor, which either gives the text or raises. A part
  without a function call has the empty call, whose name is the empty string.
\<close>

record FunctionCall =
  name :: str
  args :: "(str \<times> pyobj) list"

record Part =
  function_call :: FunctionCall

record Candidate =
  content_parts :: "Part list"

record GenerateContentResponse =
  candidates :: "Candidate list"
  response_text :: "exn + str"


text \<open>
  The library behind \<open>chat.send_message\<close>, with the hosted model behind it: from the
  calls made on this session so far, the last being the new one, it gives a reply or
  raises. Nothing is assumed about it; it may refuse a call for its arguments (a
  \<open>TypeError\<close>) as well as fail in the transport.
\<close>

type_synonym chat_model = "send_call list \<Rightarrow> exn + GenerateContentResponse"

text \<open>Line 98: \<open>response.candidates[0].content.parts[0].function_call\<close>.\<close>

definition first_function_call :: "GenerateContentResponse \<Rightarrow> exn + FunctionCall" where
  "first_function_call response =
     (case candidates response of
        [] \<Rightarrow> Inl IndexError
      | c # cs \<Rightarrow>
          (case content_parts c of
             [] \<Rightarrow> Inl IndexError
           | p # ps \<Rightarrow> Inr (function_call p)))"

text \<open>The argument of the call of lines 106 to 113.\<close>

definition tool_response :: "str \<Rightarrow> send_call" where
  "tool_response search_results =
     PartKeyword (ascii ''perform_web_search'') [(ascii ''content'', search_results)]"

text \<open>
  Lines 102 to 113: the branch taken when the model asks for the search tool. The
  query is looked up, the tool is called with it, and \<open>chat.send_message\<close> is called a
  second time; the outcome of that call, a reply or an exception, is the outcome of
  the branch.
\<close>

definition tool_round ::
  "printer \<Rightarrow> lower_table \<Rightarrow> chat_model \<Rightarrow> str \<Rightarrow> FunctionCall \<Rightarrow>
     event list \<times> (exn + GenerateContentResponse)" where
  "tool_round stdout tbl send pr fc =
     (case map_of (args fc) (ascii ''query'') of
        None \<Rightarrow> ([], Inl (KeyError (ascii ''query'')))
      | Some query \<Rightarrow>
          (case perform_web_search stdout tbl query of
             (out, Inl e) \<Rightarrow> (CallSearchTool query # out, Inl e)
           | (out, Inr search_results) \<Rightarrow>
               (CallSearchTool query # out @ [CallSendMessage (tool_response search_results)],
                send [Content pr, tool_response search_results])))"

text \<open>Lines 97 to 113: the reply whose text is taken as the final answer.\<close>

definition exchange ::
  "printer \<Rightarrow> lower_table \<Rightarrow> chat_model \<Rightarrow> str \<Rightarrow>
     event list \<times> (exn + GenerateContentResponse)" where
  "exchange stdout tbl send pr =
     (case send [Content pr] of
        Inl e \<Rightarrow> ([CallSendMessage (Content pr)], Inl e)
      | Inr response \<Rightarrow>
          (case first_function_call response of
             Inl e \<Rightarrow> ([CallSendMessage (Content pr)], Inl e)
           | Inr fc \<Rightarrow>
               if name fc = ascii ''perform_web_search''
               then (case tool_round stdout tbl send pr fc of
                       (evs, r) \<Rightarrow> (CallSendMessage (Content pr) # evs, r))
               else ([CallSendMessage (Content pr)], Inr response)))"

text \<open>Lines 116 and 117: the text of the final reply, parsed and validated.\<close>

definition final_answer :: "json_parser \<Rightarrow> GenerateContentResponse \<Rightarrow> exn + Itinerary" where
  "final_answer loads response =
     (case response_text response of
        Inl e \<Rightarrow> Inl e
      | Inr final_json_str \<Rightarrow> model_validate_json loads final_json_str)"

text \<open>The body of the \<open>try\<close>, lines 96 to 118.\<close>

definition try_body ::
  "printer \<Rightarrow> lower_table \<Rightarrow> json_parser \<Rightarrow> chat_model \<Rightarrow> str \<Rightarrow>
     event list \<times> (exn + Itinerary)" where
  "try_body stdout tbl loads send pr =
     (case exchange stdout tbl send pr of
        (evs, Inl e) \<Rightarrow> (evs, Inl e)
      | (evs, Inr response) \<Rightarrow> (evs, final_answer loads response))"

text \<open>
  What the endpoint gives the framework: the itinerary, answered with status 200 and
  the serialised model as body; an \<open>HTTPException\<close> with its status and detail; or an
  exception that leaves the handler, which the framework answers with status 500 and
  a body of its own.
\<close>

datatype http_result =
    Return Itinerary
  | HTTPException nat str
  | Unhandled exn

definition status_code :: "http_result \<Rightarrow> nat" where
  "status_code r = (case r of Return i \<Rightarrow> 200 | HTTPException c d \<Rightarrow> c | Unhandled e \<Rightarrow> 500)"

text \<open>
  The handler from the prompt on (lines 81 to 122). The model object and the chat
  session of lines 73 to 77 are made from fixed arguments before that; the session is
  the parameter \<open>send\<close>. In the \<open>except\<close> clause the error line is printed before the
  \<open>HTTPException\<close> is raised, so when that \<open>print\<close> raises, its exception leaves the
  handler instead.
\<close>

definition generate_itinerary ::
  "printer \<Rightarrow> lower_table \<Rightarrow> json_parser \<Rightarrow> chat_model \<Rightarrow> ItineraryRequest \<Rightarrow>
     event list \<times> http_result" where
  "generate_itinerary stdout tbl loads send request =
     (case try_body stdout tbl loads send (compose_prompt request) of
        (evs, Inr itinerary_data) \<Rightarrow> (evs, Return itinerary_data)
      | (evs, Inl e) \<Rightarrow>
          (case stdout (ErrorLine e) of
             None \<Rightarrow>
               (evs @ [Printed (ErrorLine e)],
                HTTPException 500 (ascii ''Failed to generate a valid itinerary.''))
           | Some e' \<Rightarrow> (evs, Unhandled e')))"



section \<open>Start of the service\<close>

text \<open>
  Lines 55 to 67, run once when the module is loaded: the application is created, the
  key is read from the environment, and only then is the route registered. A missing
  key raises, and the load ends without an application.
\<close>

record application =
  api_key :: str
  routes :: "str list"

definition load_module :: "(str \<Rightarrow> str option) \<Rightarrow> exn + application" where
  "load_module environ =
     (case environ (ascii ''GOOGLE_API_KEY'') of
        None \<Rightarrow> Inl (RuntimeError (ascii ''GOOGLE_API_KEY environment variable not set.''))
      | Some key \<Rightarrow> Inr \<lparr>api_key = key, routes = [ascii ''/generate'']\<rparr>)"

text \<open>A request is handled only by an application that the load has produced.\<close>

definition serve ::
  "(str \<Rightarrow> str option) \<Rightarrow> printer \<Rightarrow> lower_table \<Rightarrow> json_parser \<Rightarrow> chat_model \<Rightarrow>
     ItineraryRequest \<Rightarrow> exn + event list \<times> http_result" where
  "serve environ stdout tbl loads send request =
     (case load_module environ of
        Inl e \<Rightarrow> Inl e
      | Inr app \<Rightarrow> Inr (generate_itinerary stdout tbl loads send request))"

section \<open>Sample values\<close>

text \<open>Concrete requests, replies and surroundings, on which the properties below are run.\<close>

definition sample_request :: ItineraryRequest where
  "sample_request =
     \<lparr>prompt = ascii ''Plan 2 days in Kyoto'', history = [], currentItinerary = None\<rparr>"

definition sample_itinerary :: Itinerary where
  "sample_itinerary =
     \<lparr>title = ascii ''Kyoto'', startDate = ascii ''2025-04-10'', endDate = ascii ''2025-04-11'',
      days = [\<lparr>date = ascii ''2025-04-10'', summary = ascii ''Fushimi Inari'',
               items = [\<lparr>time = ascii ''09:00'', activity = ascii ''Climb'',
                         location = ascii ''34.9671,135.7727''\<rparr>]\<rparr>]\<rparr>"

definition incomplete_json :: pyobj where
  "incomplete_json = PyDict [(ascii ''title'', PyStr (ascii ''Kyoto''))]"

text \<open>
  A standard output that encodes as UTF-8, as is usual: a line cannot be written when
  the text put into it as it is, a query string or the message of an exception, holds
  a surrogate code point (55296 to 57343). Other objects are printed by their \<open>repr\<close>,
  which escapes such code points.
\<close>

definition is_surrogate :: "nat \<Rightarrow> bool" where
  "is_surrogate c = (55296 \<le> c \<and> c \<le> 57343)"

fun raw_text :: "line \<Rightarrow> str" where
  "raw_text (SearchBanner (PyStr q)) = q"
| "raw_text (ErrorLine (RuntimeError m)) = m"
| "raw_text (ErrorLine (ProviderError m)) = m"
| "raw_text l = []"

definition utf8_stdout :: printer where
  "utf8_stdout l =
     (if list_ex is_surrogate (raw_text l) then Some UnicodeEncodeError else None)"

definition plain_part :: Part where
  "plain_part = \<lparr>function_call = \<lparr>name = [], args = []\<rparr>\<rparr>"

definition text_reply :: "str \<Rightarrow> GenerateContentResponse" where
  "text_reply t = \<lparr>candidates = [\<lparr>content_parts = [plain_part]\<rparr>], response_text = Inr t\<rparr>"


text \<open>A session that answers at once with the given text.\<close>

definition text_model :: "str \<Rightarrow> chat_model" where
  "text_model t ms = Inr (text_reply t)"



text \<open>A parser that knows the text \<open>json.dumps\<close> writes for one value, and nothing else.\<close>

definition single_parser :: "pyobj \<Rightarrow> json_parser" where
  "single_parser v s = (if s = json_dumps v then Some v else None)"

section \<open>Properties of the search tool\<close>

lemma lower_cp_no_K: "lower_table_ok tbl \<Longrightarrow> 75 \<notin> set (lower_cp tbl pre c post)"
  by (auto simp: lower_cp_def lower_table_ok_def)

lemma lower_from_no_K: "lower_table_ok tbl \<Longrightarrow> 75 \<notin> set (lower_from tbl pre s)"
  by (induction s arbitrary: pre) (auto simp: lower_cp_no_K)

lemma literal_has_K: "75 \<in> set (ascii ''restaurants in Kyoto'')"
  by (simp add: ascii_def)

lemma kyoto_test_false:
  assumes "lower_table_ok tbl"
  shows "\<not> sublist (ascii ''restaurants in Kyoto'') (lower tbl q)"
proof
  assume "sublist (ascii ''restaurants in Kyoto'') (lower tbl q)"
  then have "set (ascii ''restaurants in Kyoto'') \<subseteq> set (lower tbl q)"
    by (rule set_mono_sublist)
  with literal_has_K have "75 \<in> set (lower tbl q)" by blast
  with lower_from_no_K [OF assms] show False by (simp add: lower_def)
qed

lemma no_information_text:
  \<open>json_dumps no_information =
     ascii ''{"results": "No real-time information found for this query."}''\<close>
  by (simp add: no_information_def encode_str_def escape_cp_def ascii_def)

lemma kyoto_results_text:
  \<open>json_dumps kyoto_results =
     ascii ''{"results": [{"name": "Kikunoi Roan", "rating": 4.5, "type": "Kaiseki"}, {"name": "Gogyo Ramen", "rating": 4.3, "type": "Ramen"}]}''\<close>
  by (simp add: kyoto_results_def encode_str_def escape_cp_def ascii_def)

lemma texts_differ:
  \<open>ascii ''{"results": [{"name": "Kikunoi Roan", "rating": 4.5, "type": "Kaiseki"}, {"name": "Gogyo Ramen", "rating": 4.3, "type": "Ramen"}]}'' \<noteq>
   ascii ''{"results": "No real-time information found for this query."}''\<close>
  by (simp add: ascii_def)

lemma keep_table_ok: "lower_table_ok keep_table"
  by (simp add: lower_table_ok_def keep_table_def)

lemma perform_web_search_str:
  \<open>perform_web_search stdout tbl (PyStr q) =
     (case stdout (SearchBanner (PyStr q)) of
        Some e \<Rightarrow> ([], Inl e)
      | None \<Rightarrow>
          ([Printed (SearchBanner (PyStr q))],
           Inr (if sublist (ascii ''restaurants in Kyoto'') (lower tbl q)
                then ascii ''{"results": [{"name": "Kikunoi Roan", "rating": 4.5, "type": "Kaiseki"}, {"name": "Gogyo Ramen", "rating": 4.3, "type": "Ramen"}]}''
                else ascii ''{"results": "No real-time information found for this query."}'')))\<close>
  by (simp add: perform_web_search_def no_information_text kyoto_results_text
      split: option.splits)

lemma perform_web_search_returns:
  "snd (perform_web_search stdout tbl query) = Inr res \<Longrightarrow>
   perform_web_search stdout tbl query = ([Printed (SearchBanner query)], Inr res)"
  by (cases "stdout (SearchBanner query)") (simp_all add: perform_web_search_def)



text \<open>
  C9. The branch with the two sample results is dead code: the membership test looks
  for a literal with a capital \<open>K\<close> in a lowered string, so it is false for every query
  string. Whenever the banner is printed the tool returns the "no information found"
  marker, and when the \<open>print\<close> raises the tool raises; on no query string does it
  return the two sample results.
\<close>

theorem kyoto_branch_unreachable:
  assumes "lower_table_ok tbl"
  shows \<open>\<not> sublist (ascii ''restaurants in Kyoto'') (lower tbl q) \<and>
         perform_web_search stdout tbl (PyStr q) =
           (case stdout (SearchBanner (PyStr q)) of
              None \<Rightarrow>
                ([Printed (SearchBanner (PyStr q))],
                 Inr (ascii ''{"results": "No real-time information found for this query."}''))
            | Some e \<Rightarrow> ([], Inl e)) \<and>
         snd (perform_web_search stdout tbl (PyStr q)) \<noteq>
           Inr (ascii ''{"results": [{"name": "Kikunoi Roan", "rating": 4.5, "type": "Kaiseki"}, {"name": "Gogyo Ramen", "rating": 4.3, "type": "Ramen"}]}'')\<close>
proof -
  note f = kyoto_test_false [OF assms, of q]
  from f have a: \<open>perform_web_search stdout tbl (PyStr q) =
      (case stdout (SearchBanner (PyStr q)) of
         None \<Rightarrow>
           ([Printed (SearchBanner (PyStr q))],
            Inr (ascii ''{"results": "No real-time information found for this query."}''))
       | Some e \<Rightarrow> ([], Inl e))\<close>
    by (simp add: perform_web_search_str split: option.splits)
  have b: \<open>snd (perform_web_search stdout tbl (PyStr q)) \<noteq>
      Inr (ascii ''{"results": [{"name": "Kikunoi Roan", "rating": 4.5, "type": "Kaiseki"}, {"name": "Gogyo Ramen", "rating": 4.3, "type": "Ramen"}]}'')\<close>
    using texts_differ by (cases "stdout (SearchBanner (PyStr q))") (auto simp: a)
  from f a b show ?thesis
    by blast
qed

theorem kyoto_branch_unreachable_witness:
  \<open>lower_table_ok keep_table \<and>
   utf8_stdout (SearchBanner (PyStr (ascii ''Best restaurants in Kyoto''))) = None \<and>
   perform_web_search utf8_stdout keep_table (PyStr (ascii ''Best restaurants in Kyoto'')) =
     ([Printed (SearchBanner (PyStr (ascii ''Best restaurants in Kyoto'')))],
      Inr (ascii ''{"results": "No real-time information found for this query."}''))\<close>
proof -
  have p: "utf8_stdout (SearchBanner (PyStr (ascii ''Best restaurants in Kyoto''))) = None"
    by (simp add: utf8_stdout_def is_surrogate_def ascii_def)
  from kyoto_branch_unreachable [where tbl = keep_table and stdout = utf8_stdout
      and q = "ascii ''Best restaurants in Kyoto''", OF keep_table_ok] p keep_table_ok
  show ?thesis
    by simp
qed

text \<open>
  C6. A query string that does not contain "restaurants in Kyoto", compared without
  regard to case, gets the JSON text of the "no information found" marker, the banner
  having been printed.
\<close>

theorem unrecognized_query_no_information:
  assumes "lower_table_ok tbl"
    and "\<not> contains_ignoring_case tbl (ascii ''restaurants in Kyoto'') q"
    and "stdout (SearchBanner (PyStr q)) = None"
  shows \<open>perform_web_search stdout tbl (PyStr q) =
           ([Printed (SearchBanner (PyStr q))],
            Inr (ascii ''{"results": "No real-time information found for this query."}''))\<close>
  using kyoto_test_false [OF assms(1), of q] assms(3)
  by (simp add: perform_web_search_str)

theorem unrecognized_query_no_information_witness:
  \<open>lower_table_ok keep_table \<and>
   \<not> contains_ignoring_case keep_table (ascii ''restaurants in Kyoto'') (ascii ''hotels in Paris'') \<and>
   utf8_stdout (SearchBanner (PyStr (ascii ''hotels in Paris''))) = None \<and>
   perform_web_search utf8_stdout keep_table (PyStr (ascii ''hotels in Paris'')) =
     ([Printed (SearchBanner (PyStr (ascii ''hotels in Paris'')))],
      Inr (ascii ''{"results": "No real-time information found for this query."}''))\<close>
proof -
  have ok: "lower_table_ok keep_table"
    by (rule keep_table_ok)
  have miss: "\<not> contains_ignoring_case keep_table (ascii ''restaurants in Kyoto'')
                  (ascii ''hotels in Paris'')"
    by (simp add: contains_ignoring_case_def lower_def lower_cp_def ascii_def
        sublist_code prefix_code)
  have p: "utf8_stdout (SearchBanner (PyStr (ascii ''hotels in Paris''))) = None"
    by (simp add: utf8_stdout_def is_surrogate_def ascii_def)
  from unrecognized_query_no_information [where stdout = utf8_stdout, OF ok miss p] ok miss p
  show ?thesis
    by blast
qed

text \<open>
  C7, as the claim states it, fails: the tool has an error path on query strings. On a
  standard output that encodes as UTF-8, the query made of the one surrogate code point
  U+D800 cannot be printed, so the tool raises \<open>UnicodeEncodeError\<close> at its first line
  and returns nothing.
\<close>

theorem surrogate_query_raises:
  "perform_web_search utf8_stdout keep_table (PyStr [55296]) = ([], Inl UnicodeEncodeError)"
  by (simp add: perform_web_search_def utf8_stdout_def is_surrogate_def)

text \<open>
  C7, amended. On a query string the tool raises exactly when the \<open>print\<close> of its banner
  raises, with that exception and before anything else is done. Otherwise it returns
  one of its two fixed texts, each a JSON object with the one top-level key "results",
  chosen by the membership test on the lowered query; the printed banner is all it
  does besides, and it calls neither the model nor the network.
\<close>

theorem perform_web_search_outcomes:
  \<open>perform_web_search stdout tbl (PyStr q) =
     (case stdout (SearchBanner (PyStr q)) of
        Some e \<Rightarrow> ([], Inl e)
      | None \<Rightarrow>
          ([Printed (SearchBanner (PyStr q))],
           Inr (if sublist (ascii ''restaurants in Kyoto'') (lower tbl q)
                then ascii ''{"results": [{"name": "Kikunoi Roan", "rating": 4.5, "type": "Kaiseki"}, {"name": "Gogyo Ramen", "rating": 4.3, "type": "Ramen"}]}''
                else ascii ''{"results": "No real-time information found for this query."}'')))\<close>
  by (simp add: perform_web_search_def no_information_text kyoto_results_text
      split: option.splits)

theorem perform_web_search_outcomes_witness:
  \<open>perform_web_search utf8_stdout keep_table (PyStr (ascii ''ramen in Osaka'')) =
     ([Printed (SearchBanner (PyStr (ascii ''ramen in Osaka'')))],
      Inr (ascii ''{"results": "No real-time information found for this query."}'')) \<and>
   perform_web_search utf8_stdout keep_table (PyStr [55296, 82]) =
     ([], Inl UnicodeEncodeError)\<close>
proof -
  have p: "utf8_stdout (SearchBanner (PyStr (ascii ''ramen in Osaka''))) = None"
    by (simp add: utf8_stdout_def is_surrogate_def ascii_def)
  have t: "\<not> sublist (ascii ''restaurants in Kyoto'') (lower keep_table (ascii ''ramen in Osaka''))"
    by (rule kyoto_test_false [OF keep_table_ok])
  have s: "utf8_stdout (SearchBanner (PyStr [55296, 82])) = Some UnicodeEncodeError"
    by (simp add: utf8_stdout_def is_surrogate_def)
  from perform_web_search_outcomes [of utf8_stdout keep_table "ascii ''ramen in Osaka''"]
    perform_web_search_outcomes [of utf8_stdout keep_table "[55296, 82]"] p t s
  show ?thesis
    by simp
qed

text \<open>
  C1. The query "restaurants in Kyoto" contains the recognised substring when case is
  ignored, yet the tool, its banner printed, answers it with the "no information
  found" marker, which is not the text of the two sample entries.
\<close>

theorem kyoto_query_gets_no_information:
  \<open>contains_ignoring_case keep_table (ascii ''restaurants in Kyoto'')
      (ascii ''restaurants in Kyoto'') \<and>
   perform_web_search utf8_stdout keep_table (PyStr (ascii ''restaurants in Kyoto'')) =
     ([Printed (SearchBanner (PyStr (ascii ''restaurants in Kyoto'')))],
      Inr (ascii ''{"results": "No real-time information found for this query."}'')) \<and>
   json_dumps kyoto_results \<noteq>
     ascii ''{"results": "No real-time information found for this query."}''\<close>
proof -
  have a: "contains_ignoring_case keep_table (ascii ''restaurants in Kyoto'')
             (ascii ''restaurants in Kyoto'')"
    by (simp add: contains_ignoring_case_def)
  have p: "utf8_stdout (SearchBanner (PyStr (ascii ''restaurants in Kyoto''))) = None"
    by (simp add: utf8_stdout_def is_surrogate_def ascii_def)
  have b: \<open>perform_web_search utf8_stdout keep_table (PyStr (ascii ''restaurants in Kyoto'')) =
     ([Printed (SearchBanner (PyStr (ascii ''restaurants in Kyoto'')))],
      Inr (ascii ''{"results": "No real-time information found for this query."}''))\<close>
    using kyoto_test_false [OF keep_table_ok, of "ascii ''restaurants in Kyoto''"] p
    by (simp add: perform_web_search_str)
  have c: \<open>json_dumps kyoto_results \<noteq>
     ascii ''{"results": "No real-time information found for this query."}''\<close>
    using texts_differ by (simp add: kyoto_results_text)
  from a b c show ?thesis by blast
qed

section \<open>Properties of the schema\<close>

lemma str_field_text:
  assumes "is_text kvs k"
  shows "\<exists>s. str_field kvs k = Inr s"
proof -
  from assms obtain s where "map_of kvs (ascii k) = Some (PyStr s)"
    by (auto simp: is_text_def split: option.splits pyobj.splits)
  then show ?thesis
    by (simp add: str_field_def required_field_def validate_str_def)
qed

lemma validate_each_all:
  "list_all (\<lambda>x. \<exists>y. f x = Inr y) xs \<Longrightarrow> \<exists>ys. validate_each f xs = Inr ys"
  by (induction xs) auto

lemma list_field_valid:
  assumes "is_list_of P kvs k" and "\<And>x. P x \<Longrightarrow> \<exists>y. f x = Inr y"
  shows "\<exists>ys. list_field f kvs k = Inr ys"
proof -
  from assms(1) obtain xs where xs: "map_of kvs (ascii k) = Some (PyList xs)" "list_all P xs"
    by (auto simp: is_list_of_def split: option.splits pyobj.splits)
  from xs(2) assms(2) have "list_all (\<lambda>x. \<exists>y. f x = Inr y) xs"
    by (simp add: list_all_iff)
  from validate_each_all [OF this] obtain ys where "validate_each f xs = Inr ys" ..
  with xs(1) show ?thesis
    by (simp add: list_field_def required_field_def)
qed

lemma item_valid:
  assumes "is_item_json v"
  shows "\<exists>i. validate_ItineraryItem v = Inr i"
proof (cases v)
  case (PyDict kvs)
  with assms have h: "is_text kvs ''time''" "is_text kvs ''activity''" "is_text kvs ''location''"
    by (simp_all add: is_item_json_def)
  from str_field_text [OF h(1)] obtain t where t: "str_field kvs ''time'' = Inr t" ..
  from str_field_text [OF h(2)] obtain a where a: "str_field kvs ''activity'' = Inr a" ..
  from str_field_text [OF h(3)] obtain l where l: "str_field kvs ''location'' = Inr l" ..
  from t a l show ?thesis
    by (simp add: validate_ItineraryItem_def PyDict)
qed (use assms in \<open>simp_all add: is_item_json_def\<close>)

lemma day_valid:
  assumes "is_day_json v"
  shows "\<exists>d. validate_Day v = Inr d"
proof (cases v)
  case (PyDict kvs)
  with assms have h: "is_text kvs ''date''" "is_text kvs ''summary''"
      "is_list_of is_item_json kvs ''items''"
    by (simp_all add: is_day_json_def)
  from str_field_text [OF h(1)] obtain d where d: "str_field kvs ''date'' = Inr d" ..
  from str_field_text [OF h(2)] obtain s where s: "str_field kvs ''summary'' = Inr s" ..
  from list_field_valid [of is_item_json kvs "''items''" validate_ItineraryItem, OF h(3) item_valid]
  obtain xs where xs: "list_field validate_ItineraryItem kvs ''items'' = Inr xs" ..
  from d s xs show ?thesis
    by (simp add: validate_Day_def PyDict)
qed (use assms in \<open>simp_all add: is_day_json_def\<close>)

lemma itinerary_valid:
  assumes "is_itinerary_json v"
  shows "\<exists>i. validate_Itinerary v = Inr i"
proof (cases v)
  case (PyDict kvs)
  with assms have h: "is_text kvs ''title''" "is_text kvs ''startDate''"
      "is_text kvs ''endDate''" "is_list_of is_day_json kvs ''days''"
    by (simp_all add: is_itinerary_json_def)
  from str_field_text [OF h(1)] obtain t where t: "str_field kvs ''title'' = Inr t" ..
  from str_field_text [OF h(2)] obtain s where s: "str_field kvs ''startDate'' = Inr s" ..
  from str_field_text [OF h(3)] obtain e where e: "str_field kvs ''endDate'' = Inr e" ..
  from list_field_valid [of is_day_json kvs "''days''" validate_Day, OF h(4) day_valid]
  obtain ds where ds: "list_field validate_Day kvs ''days'' = Inr ds" ..
  from t s e ds show ?thesis
    by (simp add: validate_Itinerary_def PyDict)
qed (use assms in \<open>simp_all add: is_itinerary_json_def\<close>)

lemma validate_each_dump:
  "(\<And>x. f (d x) = Inr x) \<Longrightarrow> validate_each f (map d xs) = Inr xs"
  by (induction xs) simp_all

lemma item_roundtrip: "validate_ItineraryItem (dump_ItineraryItem i) = Inr i"
  by (simp add: validate_ItineraryItem_def dump_ItineraryItem_def str_field_def
      required_field_def validate_str_def ascii_def)

lemma day_roundtrip: "validate_Day (dump_Day d) = Inr d"
  by (simp add: validate_Day_def dump_Day_def str_field_def list_field_def
      required_field_def validate_str_def ascii_def validate_each_dump [OF item_roundtrip])

lemma itinerary_roundtrip: "validate_Itinerary (dump_Itinerary i) = Inr i"
  by (simp add: validate_Itinerary_def dump_Itinerary_def str_field_def list_field_def
      required_field_def validate_str_def ascii_def validate_each_dump [OF day_roundtrip])

section \<open>Properties of the handler\<close>




lemma try_body_raises:
  "snd (exchange stdout tbl send pr) = Inl e \<Longrightarrow>
   snd (try_body stdout tbl loads send pr) = Inl e"
  by (cases "exchange stdout tbl send pr") (simp add: try_body_def)

lemma try_body_final:
  "snd (exchange stdout tbl send pr) = Inr r \<Longrightarrow>
   snd (try_body stdout tbl loads send pr) = final_answer loads r"
  by (cases "exchange stdout tbl send pr") (simp add: try_body_def)







lemma exchange_tool:
  assumes "send [Content pr] = Inr r" and "first_function_call r = Inr fc"
    and "name fc = ascii ''perform_web_search''"
    and "map_of (args fc) (ascii ''query'') = Some query"
    and "snd (perform_web_search stdout tbl query) = Inr res"
  shows "exchange stdout tbl send pr =
           ([CallSendMessage (Content pr), CallSearchTool query, Printed (SearchBanner query),
             CallSendMessage (tool_response res)],
            send [Content pr, tool_response res])"
proof -
  from assms(5)
  have "perform_web_search stdout tbl query = ([Printed (SearchBanner query)], Inr res)"
    by (rule perform_web_search_returns)
  with assms(1-4) show ?thesis
    by (simp add: exchange_def tool_round_def)
qed

lemma text_model_exchange:
  "exchange stdout tbl (text_model t) pr =
     ([CallSendMessage (Content pr)], Inr (text_reply t))"
  by (simp add: exchange_def text_model_def text_reply_def first_function_call_def
      plain_part_def ascii_def)


text \<open>The kinds of failure, each an exception raised inside the \<open>try\<close>.\<close>

lemma transport_error_raises:
  "send [Content pr] = Inl e \<Longrightarrow> snd (try_body stdout tbl loads send pr) = Inl e"
  by (simp add: try_body_raises exchange_def)

lemma no_first_part_raises:
  "send [Content pr] = Inr r \<Longrightarrow> first_function_call r = Inl e \<Longrightarrow>
   snd (try_body stdout tbl loads send pr) = Inl e"
  by (simp add: try_body_raises exchange_def)

lemma missing_query_raises:
  assumes "send [Content pr] = Inr r" and "first_function_call r = Inr fc"
    and "name fc = ascii ''perform_web_search''"
    and "map_of (args fc) (ascii ''query'') = None"
  shows "snd (try_body stdout tbl loads send pr) = Inl (KeyError (ascii ''query''))"
  using assms by (simp add: try_body_raises exchange_def tool_round_def)

lemma tool_failure_raises:
  assumes "send [Content pr] = Inr r" and "first_function_call r = Inr fc"
    and "name fc = ascii ''perform_web_search''"
    and "map_of (args fc) (ascii ''query'') = Some query"
    and "snd (perform_web_search stdout tbl query) = Inl e"
  shows "snd (try_body stdout tbl loads send pr) = Inl e"
proof -
  obtain out where "perform_web_search stdout tbl query = (out, Inl e)"
    using assms(5) by (cases "perform_web_search stdout tbl query") simp
  with assms(1-4) show ?thesis
    by (simp add: try_body_raises exchange_def tool_round_def)
qed

lemma malformed_query_raises:
  assumes "send [Content pr] = Inr r" and "first_function_call r = Inr fc"
    and "name fc = ascii ''perform_web_search''"
    and "map_of (args fc) (ascii ''query'') = Some query" and "\<And>s. query \<noteq> PyStr s"
    and "stdout (SearchBanner query) = None"
  shows "snd (try_body stdout tbl loads send pr) = Inl AttributeError"
proof -
  have "snd (perform_web_search stdout tbl query) = Inl AttributeError"
    by (cases query) (use assms(5,6) in \<open>auto simp: perform_web_search_def\<close>)
  with assms(1-4) show ?thesis
    by (rule tool_failure_raises)
qed

lemma refused_call_raises:
  assumes "send [Content pr] = Inr r" and "first_function_call r = Inr fc"
    and "name fc = ascii ''perform_web_search''"
    and "map_of (args fc) (ascii ''query'') = Some query"
    and "snd (perform_web_search stdout tbl query) = Inr res"
    and "send [Content pr, tool_response res] = Inl e"
  shows "snd (try_body stdout tbl loads send pr) = Inl e"
  using exchange_tool [where send = send and stdout = stdout, OF assms(1-5)] assms(6)
  by (simp add: try_body_raises)

lemma malformed_json_raises:
  assumes "snd (exchange stdout tbl send pr) = Inr r" and "response_text r = Inr s"
    and "loads s = None"
  shows "snd (try_body stdout tbl loads send pr) = Inl ValidationError"
  using assms by (simp add: try_body_final final_answer_def model_validate_json_def)






text \<open>
  C4. When the text of the final reply parses to well-formed Itinerary JSON, the
  endpoint returns the itinerary read from it, answered with status 200, and that
  itinerary, serialised for the response body and validated again, is the same value;
  a final text that is the serialisation of an itinerary gives back that itinerary.
\<close>

theorem wellformed_final_text_returns_itinerary:
  assumes "exchange stdout tbl send (compose_prompt request) = (evs, Inr response)"
    and "response_text response = Inr final_json_str"
    and "loads final_json_str = Some v"
    and "is_itinerary_json v"
  shows "\<exists>i. generate_itinerary stdout tbl loads send request = (evs, Return i) \<and>
             status_code (snd (generate_itinerary stdout tbl loads send request)) = 200 \<and>
             validate_Itinerary v = Inr i \<and>
             validate_Itinerary (dump_Itinerary i) = Inr i \<and>
             (\<forall>j. v = dump_Itinerary j \<longrightarrow> i = j)"
proof -
  from itinerary_valid [OF assms(4)] obtain i where i: "validate_Itinerary v = Inr i" ..
  with assms(2,3) have "final_answer loads response = Inr i"
    by (simp add: final_answer_def model_validate_json_def)
  with assms(1) have "try_body stdout tbl loads send (compose_prompt request) = (evs, Inr i)"
    by (simp add: try_body_def)
  then have g: "generate_itinerary stdout tbl loads send request = (evs, Return i)"
    by (simp add: generate_itinerary_def)
  have "\<forall>j. v = dump_Itinerary j \<longrightarrow> i = j"
    using i by (auto simp: itinerary_roundtrip)
  with g i itinerary_roundtrip [of i] show ?thesis
    by (simp add: status_code_def)
qed

theorem wellformed_final_text_returns_itinerary_witness:
  "generate_itinerary utf8_stdout keep_table (single_parser (dump_Itinerary sample_itinerary))
       (text_model (json_dumps (dump_Itinerary sample_itinerary))) sample_request =
     ([CallSendMessage (Content (compose_prompt sample_request))], Return sample_itinerary) \<and>
   status_code
     (snd (generate_itinerary utf8_stdout keep_table
        (single_parser (dump_Itinerary sample_itinerary))
        (text_model (json_dumps (dump_Itinerary sample_itinerary))) sample_request)) = 200"
proof -
  have a1: "exchange utf8_stdout keep_table
      (text_model (json_dumps (dump_Itinerary sample_itinerary)))
      (compose_prompt sample_request) =
      ([CallSendMessage (Content (compose_prompt sample_request))],
       Inr (text_reply (json_dumps (dump_Itinerary sample_itinerary))))"
    by (rule text_model_exchange)
  have a2: "response_text (text_reply (json_dumps (dump_Itinerary sample_itinerary))) =
      Inr (json_dumps (dump_Itinerary sample_itinerary))"
    by (simp add: text_reply_def)
  have a3: "single_parser (dump_Itinerary sample_itinerary)
      (json_dumps (dump_Itinerary sample_itinerary)) = Some (dump_Itinerary sample_itinerary)"
    by (simp add: single_parser_def)
  have a4: "is_itinerary_json (dump_Itinerary sample_itinerary)"
    by (simp add: is_itinerary_json_def is_day_json_def is_item_json_def is_text_def
        is_list_of_def dump_Itinerary_def dump_Day_def dump_ItineraryItem_def
        sample_itinerary_def ascii_def)
  from wellformed_final_text_returns_itinerary [where stdout = utf8_stdout
      and send = "text_model (json_dumps (dump_Itinerary sample_itinerary))"
      and loads = "single_parser (dump_Itinerary sample_itinerary)", OF a1 a2 a3 a4]
  obtain i where i: "generate_itinerary utf8_stdout keep_table
        (single_parser (dump_Itinerary sample_itinerary))
        (text_model (json_dumps (dump_Itinerary sample_itinerary))) sample_request =
        ([CallSendMessage (Content (compose_prompt sample_request))], Return i)"
      "status_code (snd (generate_itinerary utf8_stdout keep_table
        (single_parser (dump_Itinerary sample_itinerary))
        (text_model (json_dumps (dump_Itinerary sample_itinerary))) sample_request)) = 200"
      "\<forall>j. dump_Itinerary sample_itinerary = dump_Itinerary j \<longrightarrow> i = j"
    by blast
  from i(3) have "i = sample_itinerary"
    by blast
  with i(1,2) show ?thesis
    by simp
qed

section \<open>Properties of the prompt and of the start\<close>

lemma head_states_role: "sublist (ascii ''You are an expert travel agent.'') prompt_head"
  by (simp add: prompt_head_def ascii_def sublist_code prefix_code)

lemma tail_mentions_tool:
  "sublist (ascii ''You have access to a web search tool'') prompt_tail"
  by (simp add: prompt_tail_def ascii_def sublist_code prefix_code)

lemma tail_asks_json:
  "sublist (ascii ''respond with only a valid JSON object'') prompt_tail"
  by (simp add: prompt_tail_def ascii_def sublist_code prefix_code)

lemma tail_forbids_markdown:
  "sublist (ascii ''Do not include any other text, explanations, or markdown formatting like ```json.'') prompt_tail"
  by (simp add: prompt_tail_def ascii_def sublist_code prefix_code)

lemma tail_asks_raw_object:
  "sublist (ascii ''Your response must be the raw JSON object.'') prompt_tail"
  by (simp add: prompt_tail_def ascii_def sublist_code prefix_code)

text \<open>
  C5, as the claim states it, fails on a request that carries an empty dictionary as
  currentItinerary: the itinerary is present, yet the prompt embeds \<open>None\<close> for it, not
  its JSON text \<open>{}\<close>.
\<close>

theorem empty_itinerary_embeds_None:
  "compose_prompt \<lparr>prompt = ascii ''Plan 2 days in Kyoto'', history = [],
      currentItinerary = Some []\<rparr> =
     prompt_head @ ascii ''Plan 2 days in Kyoto'' @ prompt_middle @ ascii ''None'' @ prompt_tail \<and>
   compose_prompt \<lparr>prompt = ascii ''Plan 2 days in Kyoto'', history = [],
      currentItinerary = Some []\<rparr> \<noteq>
     prompt_head @ ascii ''Plan 2 days in Kyoto'' @ prompt_middle @ json_dumps (PyDict []) @
     prompt_tail"
proof -
  have "ascii ''None'' \<noteq> json_dumps (PyDict [])"
    by (simp add: ascii_def)
  then show ?thesis
    by (simp add: compose_prompt_def is_truthy_def)
qed

text \<open>
  C5, amended. The composed prompt is one text: the fixed opening, which states the
  role of the assistant, the prompt of the user as it is, the fixed middle, the prior
  itinerary, and the fixed ending, which mentions the search tool and asks for the raw
  JSON object alone, without markdown. The prior itinerary is its JSON text when
  currentItinerary is a dictionary with at least one key, and the token \<open>None\<close> when it
  is absent or is the empty dictionary.
\<close>

theorem prompt_composition:
  "compose_prompt request =
     prompt_head @ prompt request @ prompt_middle @
     (case currentItinerary request of
        None \<Rightarrow> ascii ''None''
      | Some kvs \<Rightarrow> if kvs = [] then ascii ''None'' else json_dumps (PyDict kvs)) @
     prompt_tail \<and>
   sublist (ascii ''You are an expert travel agent.'') prompt_head \<and>
   sublist (ascii ''You have access to a web search tool'') prompt_tail \<and>
   sublist (ascii ''respond with only a valid JSON object'') prompt_tail \<and>
   sublist (ascii ''Do not include any other text, explanations, or markdown formatting like ```json.'') prompt_tail \<and>
   sublist (ascii ''Your response must be the raw JSON object.'') prompt_tail"
proof -
  have "compose_prompt request =
     prompt_head @ prompt request @ prompt_middle @
     (case currentItinerary request of
        None \<Rightarrow> ascii ''None''
      | Some kvs \<Rightarrow> if kvs = [] then ascii ''None'' else json_dumps (PyDict kvs)) @
     prompt_tail"
    by (simp add: compose_prompt_def is_truthy_def optional_dict_def split: option.splits)
  with head_states_role tail_mentions_tool tail_asks_json tail_forbids_markdown
    tail_asks_raw_object
  show ?thesis
    by blast
qed

theorem prompt_composition_witness:
  \<open>compose_prompt sample_request =
     prompt_head @ ascii ''Plan 2 days in Kyoto'' @ prompt_middle @ ascii ''None'' @ prompt_tail \<and>
   compose_prompt (sample_request\<lparr>currentItinerary :=
       Some [(ascii ''title'', PyStr (ascii ''Kyoto''))]\<rparr>) =
     prompt_head @ ascii ''Plan 2 days in Kyoto'' @ prompt_middle @
     ascii ''{"title": "Kyoto"}'' @ prompt_tail\<close>
proof -
  have j: \<open>json_dumps (PyDict [(ascii ''title'', PyStr (ascii ''Kyoto''))]) =
      ascii ''{"title": "Kyoto"}''\<close>
    by (simp add: encode_str_def escape_cp_def ascii_def)
  from prompt_composition [of sample_request, THEN conjunct1]
    prompt_composition [of "sample_request\<lparr>currentItinerary :=
       Some [(ascii ''title'', PyStr (ascii ''Kyoto''))]\<rparr>", THEN conjunct1] j
  show ?thesis
    by (simp add: sample_request_def)
qed

text \<open>
  C8. With no \<open>GOOGLE_API_KEY\<close> in the environment the load of the module raises a
  \<open>RuntimeError\<close>, no application exists, and no request is handled.
\<close>

theorem missing_key_prevents_startup:
  assumes "environ (ascii ''GOOGLE_API_KEY'') = None"
  shows "load_module environ =
           Inl (RuntimeError (ascii ''GOOGLE_API_KEY environment variable not set.'')) \<and>
         serve environ stdout tbl loads send request =
           Inl (RuntimeError (ascii ''GOOGLE_API_KEY environment variable not set.''))"
  using assms by (simp add: load_module_def serve_def)

theorem missing_key_prevents_startup_witness:
  "(\<lambda>k. None) (ascii ''GOOGLE_API_KEY'') = (None :: str option) \<and>
   load_module (\<lambda>k. None) =
     Inl (RuntimeError (ascii ''GOOGLE_API_KEY environment variable not set.'')) \<and>
   serve (\<lambda>k. None) utf8_stdout keep_table (single_parser incomplete_json)
       (text_model (json_dumps incomplete_json)) sample_request =
     Inl (RuntimeError (ascii ''GOOGLE_API_KEY environment variable not set.''))"
  using missing_key_prevents_startup [of "\<lambda>k. None" utf8_stdout keep_table
      "single_parser incomplete_json" "text_model (json_dumps incomplete_json)" sample_request]
  by simp

text \<open>
  C10. Two requests with the same prompt and the same currentItinerary give the same
  composed prompt and the same run of the handler, events and answer, whatever their
  histories are.
\<close>

theorem history_does_not_interfere:
  assumes "prompt r1 = prompt r2" and "currentItinerary r1 = currentItinerary r2"
  shows "compose_prompt r1 = compose_prompt r2 \<and>
         generate_itinerary stdout tbl loads send r1 =
           generate_itinerary stdout tbl loads send r2"
  using assms by (simp add: compose_prompt_def generate_itinerary_def)

theorem history_does_not_interfere_witness:
  "history (sample_request\<lparr>history := [[(ascii ''role'', PyStr (ascii ''user''))]]\<rparr>) \<noteq>
     history sample_request \<and>
   compose_prompt (sample_request\<lparr>history := [[(ascii ''role'', PyStr (ascii ''user''))]]\<rparr>) =
     compose_prompt sample_request \<and>
   generate_itinerary utf8_stdout keep_table (single_parser incomplete_json)
       (text_model (json_dumps incomplete_json))
       (sample_request\<lparr>history := [[(ascii ''role'', PyStr (ascii ''user''))]]\<rparr>) =
     generate_itinerary utf8_stdout keep_table (single_parser incomplete_json)
       (text_model (json_dumps incomplete_json)) sample_request"
  using history_does_not_interfere [of
      "sample_request\<lparr>history := [[(ascii ''role'', PyStr (ascii ''user''))]]\<rparr>" sample_request
      utf8_stdout keep_table "single_parser incomplete_json"
      "text_model (json_dumps incomplete_json)"]
  by (simp add: sample_request_def)

end
